theory Spec2Isabelle
  imports Complex_Main "HOL-Library.List_Lexorder"
begin

section \<open>Values of the source language\<close>

text \<open>
  A Python \<open>str\<close> is a sequence of Unicode code points; it is compared code point by code
  point, a proper prefix being smaller.  That is the lexicographic order on lists.
\<close>

type_synonym pystr = "nat list"

definition ustr :: "string \<Rightarrow> pystr" where
  "ustr s = map of_char s"

text \<open>
  Python's \<open>float\<close> is the type parameter \<open>'f\<close>.  The aggregation only adds floats, compares
  them with \<open><\<close> and starts from \<open>0.0\<close>; no law of arithmetic or order is assumed unless a
  theorem states it in its sort.
\<close>

text \<open>\<open>min(a, b)\<close> and \<open>max(a, b)\<close> keep the first argument unless the second is strictly better.\<close>

definition py_min :: "'f::ord \<Rightarrow> 'f \<Rightarrow> 'f" where
  "py_min a b = (if b < a then b else a)"

definition py_max :: "'f::ord \<Rightarrow> 'f \<Rightarrow> 'f" where
  "py_max a b = (if a < b then b else a)"

section \<open>Accumulator nodes\<close>

text \<open>
  \<open>class Node\<close>: one class for the three levels.  A dict is an association list in insertion
  order with distinct keys.  \<open>bbox\<close> is \<open>None\<close> or the list \<open>[minLng, minLat, maxLng, maxLat]\<close>,
  which is only ever built with four entries (line 51), so it is a quadruple here.
\<close>

datatype 'f node = Node
  (name: pystr)
  (count: int)
  (area: 'f)
  (bbox: "('f \<times> 'f \<times> 'f \<times> 'f) option")
  (sum_lng: 'f)
  (sum_lat: 'f)
  (has_center: int)
  (regions: "(pystr \<times> 'f node) list")
  (places: "(pystr \<times> 'f node) list")

text \<open>\<open>Node.__init__\<close>: both child dicts are empty whatever the level is.\<close>

definition new_node :: "pystr \<Rightarrow> ('f::zero) node" where
  "new_node nm = Node nm 0 0 None 0 0 0 [] []"

text \<open>\<open>update_node(node, lat, lng, area)\<close>, lines 39 to 56.\<close>

fun update_node :: "('f::{plus,ord}) node \<Rightarrow> 'f option \<Rightarrow> 'f option \<Rightarrow> 'f option \<Rightarrow> 'f node" where
  "update_node (Node nm c a bb slng slat hc rs ps) lat lng ar =
     (let c' = c + 1;
          a' = (case ar of None \<Rightarrow> a | Some v \<Rightarrow> a + v)
      in case (lat, lng) of
           (Some y, Some x) \<Rightarrow>
             Node nm c' a'
               (case bb of
                  None \<Rightarrow> Some (x, y, x, y)
                | Some (b0, b1, b2, b3) \<Rightarrow>
                    Some (py_min b0 x, py_min b1 y, py_max b2 x, py_max b3 y))
               (slng + x) (slat + y) (hc + 1) rs ps
         | _ \<Rightarrow> Node nm c' a' bb slng slat hc rs ps)"

section \<open>Dictionaries\<close>

text \<open>\<open>d.setdefault(k, v)\<close>: a key that is there keeps its value, a new key goes to the end.\<close>

definition setdefault :: "('k \<times> 'v) list \<Rightarrow> 'k \<Rightarrow> 'v \<Rightarrow> ('k \<times> 'v) list" where
  "setdefault d k v = (case map_of d k of None \<Rightarrow> d @ [(k, v)] | Some _ \<Rightarrow> d)"

text \<open>
  The object stored under a key is mutated in place; the dict keeps its keys and their order.
\<close>

definition modify :: "'k \<Rightarrow> ('v \<Rightarrow> 'v) \<Rightarrow> ('k \<times> 'v) list \<Rightarrow> ('k \<times> 'v) list" where
  "modify k f d = map (\<lambda>(k', v). if k' = k then (k', f v) else (k', v)) d"

section \<open>The fold of one normalized record\<close>

record 'f norm =
  r_country :: pystr
  r_region :: pystr
  r_place :: pystr
  r_lat :: "'f option"
  r_lng :: "'f option"
  r_area :: "'f option"

fun set_regions :: "'f node \<Rightarrow> (pystr \<times> 'f node) list \<Rightarrow> 'f node" where
  "set_regions (Node nm c a bb slng slat hc rs ps) rs' = Node nm c a bb slng slat hc rs' ps"

fun set_places :: "'f node \<Rightarrow> (pystr \<times> 'f node) list \<Rightarrow> 'f node" where
  "set_places (Node nm c a bb slng slat hc rs ps) ps' = Node nm c a bb slng slat hc rs ps'"

text \<open>
  Lines 98 to 106 of \<open>build_filters\<close>: three \<open>setdefault\<close> calls down the tree, then
  \<open>update_node\<close> on the country, the region and the place node.  The three nodes are distinct
  objects, each owned by one dict, so the in-place updates are updates along one path.
\<close>

definition aggregate ::
  "(pystr \<times> ('f::{zero,plus,ord}) node) list \<Rightarrow> 'f norm \<Rightarrow> (pystr \<times> 'f node) list" where
  "aggregate countries r =
     modify (r_country r)
       (\<lambda>country_node.
          update_node
            (set_regions country_node
               (modify (r_region r)
                  (\<lambda>region_node.
                     update_node
                       (set_places region_node
                          (modify (r_place r)
                             (\<lambda>place_node. update_node place_node (r_lat r) (r_lng r) (r_area r))
                             (setdefault (places region_node) (r_place r) (new_node (r_place r)))))
                       (r_lat r) (r_lng r) (r_area r))
                  (setdefault (regions country_node) (r_region r) (new_node (r_region r)))))
            (r_lat r) (r_lng r) (r_area r))
       (setdefault countries (r_country r) (new_node (r_country r)))"

definition fold_records ::
  "('f::{zero,plus,ord}) norm list \<Rightarrow> (pystr \<times> 'f node) list" where
  "fold_records rs = foldl aggregate [] rs"

section \<open>The feature normalizer\<close>

text \<open>
  The values a decoded property can have.  \<open>PNone\<close> is also what \<open>props.get(k)\<close> gives for a
  missing key.
\<close>

datatype 'f pyval =
    PNone
  | PBool bool
  | PInt int
  | PFloat 'f
  | PStr pystr
  | PList "'f pyval list"

datatype pyerr = AttributeError | TypeError | ValueError | OverflowError

type_synonym 'f props = "(pystr \<times> 'f pyval) list"

fun truthy :: "('f::zero) pyval \<Rightarrow> bool" where
  "truthy PNone = False"
| "truthy (PBool b) = b"
| "truthy (PInt i) = (i \<noteq> 0)"
| "truthy (PFloat f) = (f \<noteq> 0)"
| "truthy (PStr s) = (s \<noteq> [])"
| "truthy (PList l) = (l \<noteq> [])"

text \<open>\<open>a or b\<close>\<close>

definition py_or :: "('f::zero) pyval \<Rightarrow> 'f pyval \<Rightarrow> 'f pyval" where
  "py_or a b = (if truthy a then a else b)"

definition props_get :: "'f props \<Rightarrow> pystr \<Rightarrow> 'f pyval" where
  "props_get props k = (case map_of props k of None \<Rightarrow> PNone | Some v \<Rightarrow> v)"

text \<open>The code points for which \<open>str.isspace\<close> holds; \<open>str.strip()\<close> removes them at both ends.\<close>

definition isspace :: "nat \<Rightarrow> bool" where
  "isspace c \<longleftrightarrow>
     (9 \<le> c \<and> c \<le> 13) \<or> (28 \<le> c \<and> c \<le> 32) \<or> c = 133 \<or> c = 160 \<or> c = 5760 \<or>
     (8192 \<le> c \<and> c \<le> 8202) \<or> c = 8232 \<or> c = 8233 \<or> c = 8239 \<or> c = 8287 \<or> c = 12288"

definition strip :: "pystr \<Rightarrow> pystr" where
  "strip s = rev (dropWhile isspace (rev (dropWhile isspace s)))"

text \<open>\<open>v.strip()\<close>: only a \<open>str\<close> has the method.\<close>

fun py_strip :: "'f pyval \<Rightarrow> pyerr + pystr" where
  "py_strip (PStr s) = Inr (strip s)"
| "py_strip _ = Inl AttributeError"

text \<open>\<open>(v or "").strip() or sentinel\<close>\<close>

definition name_field :: "('f::zero) pyval \<Rightarrow> pystr \<Rightarrow> pyerr + pystr" where
  "name_field v sentinel =
     (case py_strip (py_or v (PStr [])) of
        Inl e \<Rightarrow> Inl e
      | Inr s \<Rightarrow> Inr (if s \<noteq> [] then s else sentinel))"

text \<open>
  \<open>try: x = float(x) if x is not None else None; except (TypeError, ValueError): x = None\<close>.
  The builtin \<open>float\<close> is the parameter \<open>tofloat\<close>; any other exception it raises is not caught.
\<close>

definition coerce :: "('f pyval \<Rightarrow> pyerr + 'f) \<Rightarrow> 'f pyval \<Rightarrow> pyerr + 'f option" where
  "coerce tofloat v =
     (case v of
        PNone \<Rightarrow> Inr None
      | _ \<Rightarrow>
          (case tofloat v of
             Inr f \<Rightarrow> Inr (Some f)
           | Inl e \<Rightarrow> if e = TypeError \<or> e = ValueError then Inr None else Inl e))"

definition sin_pais :: pystr where
  "sin_pais = ustr ''Sin pa'' @ [237] @ ustr ''s''"

definition sin_region :: pystr where
  "sin_region = ustr ''Sin regi'' @ [243] @ ustr ''n''"

definition sin_lugar :: pystr where
  "sin_lugar = ustr ''Sin lugar''"

text \<open>Lines 77 to 96: the names first, then the three numeric fields.\<close>

definition normalize_feature :: "(('f::zero) pyval \<Rightarrow> pyerr + 'f) \<Rightarrow> 'f props \<Rightarrow> pyerr + 'f norm" where
  "normalize_feature tofloat props =
     (case name_field (props_get props (ustr ''country'')) sin_pais of
        Inl e \<Rightarrow> Inl e
      | Inr country \<Rightarrow>
     (case name_field (py_or (props_get props (ustr ''region''))
                             (props_get props (ustr ''district''))) sin_region of
        Inl e \<Rightarrow> Inl e
      | Inr region \<Rightarrow>
     (case name_field (py_or (props_get props (ustr ''place''))
                             (props_get props (ustr ''label''))) sin_lugar of
        Inl e \<Rightarrow> Inl e
      | Inr place \<Rightarrow>
     (case coerce tofloat (py_or (props_get props (ustr ''centroid_lat''))
                                 (props_get props (ustr ''lat''))) of
        Inl e \<Rightarrow> Inl e
      | Inr lat \<Rightarrow>
     (case coerce tofloat (py_or (props_get props (ustr ''centroid_lng''))
                                 (props_get props (ustr ''lng''))) of
        Inl e \<Rightarrow> Inl e
      | Inr lng \<Rightarrow>
     (case coerce tofloat (py_or (props_get props (ustr ''area''))
                                 (props_get props (ustr ''area_ha''))) of
        Inl e \<Rightarrow> Inl e
      | Inr ar \<Rightarrow>
          Inr \<lparr>r_country = country, r_region = region, r_place = place,
               r_lat = lat, r_lng = lng, r_area = ar\<rparr>))))))"

section \<open>The loop over the tiles\<close>

text \<open>
  A feature is what \<open>feature.get("properties")\<close> gives (\<open>None\<close> for a missing key), a layer is
  its list \<open>layer.get("features", [])\<close>, and a decoded tile is a dict from layer names to
  layers.  A layer that is an empty dict has no features, so skipping it by \<open>if not layer\<close>
  and looping over its empty feature list are the same.
\<close>

type_synonym 'f feature = "'f props option"
type_synonym 'f layer = "'f feature list"
type_synonym 'f tile = "(pystr \<times> 'f layer) list"

definition LAYER_NAME :: pystr where
  "LAYER_NAME = ustr ''piscinas_merged''"

definition PMTILES_NAME :: pystr where
  "PMTILES_NAME = ustr ''piscinas.pmtiles''"

text \<open>Lines 75 to 106: an exception of the normalizer is not caught and ends the run.\<close>

fun features_loop ::
  "(('f::{zero,plus,ord}) pyval \<Rightarrow> pyerr + 'f) \<Rightarrow> (pystr \<times> 'f node) list \<Rightarrow> 'f feature list
     \<Rightarrow> pyerr + (pystr \<times> 'f node) list" where
  "features_loop tofloat countries [] = Inr countries"
| "features_loop tofloat countries (feature # rest) =
     (case normalize_feature tofloat (case feature of None \<Rightarrow> [] | Some props \<Rightarrow> props) of
        Inl e \<Rightarrow> Inl e
      | Inr r \<Rightarrow> features_loop tofloat (aggregate countries r) rest)"

text \<open>
  Lines 65 to 73.  \<open>decode raw\<close> stands for
  \<open>mapbox_vector_tile.decode(gzip.decompress(raw))\<close> and is \<open>None\<close> when that raises.
\<close>

fun tiles_loop ::
  "(('f::{zero,plus,ord}) pyval \<Rightarrow> pyerr + 'f) \<Rightarrow> ('raw \<Rightarrow> 'f tile option)
     \<Rightarrow> (pystr \<times> 'f node) list \<Rightarrow> 'raw list \<Rightarrow> pyerr + (pystr \<times> 'f node) list" where
  "tiles_loop tofloat decode countries [] = Inr countries"
| "tiles_loop tofloat decode countries (raw_tile # rest) =
     (case decode raw_tile of
        None \<Rightarrow> tiles_loop tofloat decode countries rest
      | Some tile \<Rightarrow>
          (case map_of tile LAYER_NAME of
             None \<Rightarrow> tiles_loop tofloat decode countries rest
           | Some layer \<Rightarrow>
               (case features_loop tofloat countries layer of
                  Inl e \<Rightarrow> Inl e
                | Inr countries' \<Rightarrow> tiles_loop tofloat decode countries' rest)))"

section \<open>The serializer\<close>

datatype level = Country | Region | Place

datatype 'f json =
    JStr pystr
  | JInt int
  | JFloat 'f
  | JList "'f json list"
  | JObj "(pystr \<times> 'f json) list"

fun level_rank :: "level \<Rightarrow> nat" where
  "level_rank Country = 2"
| "level_rank Region = 1"
| "level_rank Place = 0"

text \<open>
  The entries every node has, lines 109 to 120.  \<open>rnd\<close> is \<open>round(\<cdot>, 6)\<close> and \<open>dv\<close> the
  division of a float by an int; \<open>if node.has_center\<close> is true for every integer but 0.
\<close>

definition node_fields :: "('f \<Rightarrow> 'f) \<Rightarrow> ('f \<Rightarrow> int \<Rightarrow> 'f) \<Rightarrow> 'f node \<Rightarrow> (pystr \<times> 'f json) list" where
  "node_fields rnd dv node =
     [(ustr ''name'', JStr (name node)),
      (ustr ''count'', JInt (count node)),
      (ustr ''area'', JFloat (rnd (area node)))]
     @ (case bbox node of
          None \<Rightarrow> []
        | Some (b0, b1, b2, b3) \<Rightarrow>
            [(ustr ''bbox'', JList [JFloat (rnd b0), JFloat (rnd b1), JFloat (rnd b2), JFloat (rnd b3)])])
     @ (if has_center node \<noteq> 0
        then [(ustr ''center'',
               JList [JFloat (rnd (dv (sum_lng node) (has_center node))),
                      JFloat (rnd (dv (sum_lat node) (has_center node)))])]
        else [])"

text \<open>
  \<open>sorted(d.items())\<close> compares the pairs by their names, which are distinct as keys of one
  dict, so the nodes themselves are never compared.
\<close>

definition sorted_items :: "(pystr \<times> 'v) list \<Rightarrow> (pystr \<times> 'v) list" where
  "sorted_items d = sort_key fst d"

function serialize ::
  "('f \<Rightarrow> 'f) \<Rightarrow> ('f \<Rightarrow> int \<Rightarrow> 'f) \<Rightarrow> 'f node \<Rightarrow> level \<Rightarrow> 'f json" where
  "serialize rnd dv node Country =
     JObj (node_fields rnd dv node
           @ [(ustr ''regions'',
               JObj (map (\<lambda>(nm, child). (nm, serialize rnd dv child Region))
                         (sorted_items (regions node))))])"
| "serialize rnd dv node Region =
     JObj (node_fields rnd dv node
           @ [(ustr ''places'',
               JObj (map (\<lambda>(nm, child). (nm, serialize rnd dv child Place))
                         (sorted_items (places node))))])"
| "serialize rnd dv node Place = JObj (node_fields rnd dv node)"
  by pat_completeness auto
termination
  by (relation "measure (\<lambda>(rnd, dv, node, lev). level_rank lev)") auto

text \<open>The document returned by \<open>build_filters\<close>, lines 135 to 142.\<close>

definition document ::
  "('f \<Rightarrow> 'f) \<Rightarrow> ('f \<Rightarrow> int \<Rightarrow> 'f) \<Rightarrow> (pystr \<times> 'f node) list \<Rightarrow> 'f json" where
  "document rnd dv countries =
     JObj [(ustr ''generated_from'', JStr PMTILES_NAME),
           (ustr ''layer'', JStr LAYER_NAME),
           (ustr ''countries'',
            JObj (map (\<lambda>(nm, node). (nm, serialize rnd dv node Country))
                      (sorted_items countries)))]"

definition build_filters ::
  "(('f::{zero,plus,ord}) pyval \<Rightarrow> pyerr + 'f) \<Rightarrow> ('f \<Rightarrow> 'f) \<Rightarrow> ('f \<Rightarrow> int \<Rightarrow> 'f)
     \<Rightarrow> ('raw \<Rightarrow> 'f tile option) \<Rightarrow> 'raw list \<Rightarrow> pyerr + 'f json" where
  "build_filters tofloat rnd dv decode all_tiles =
     (case tiles_loop tofloat decode [] all_tiles of
        Inl e \<Rightarrow> Inl e
      | Inr countries \<Rightarrow> Inr (document rnd dv countries))"

section \<open>Notions used to state the properties\<close>

text \<open>A point lies in a box; a box lies within another one.\<close>

definition in_bbox :: "('f::ord) \<times> 'f \<Rightarrow> 'f \<times> 'f \<times> 'f \<times> 'f \<Rightarrow> bool" where
  "in_bbox p b =
     (case (p, b) of ((x, y), (b0, b1, b2, b3)) \<Rightarrow> b0 \<le> x \<and> x \<le> b2 \<and> b1 \<le> y \<and> y \<le> b3)"

definition bbox_within :: "('f::ord) \<times> 'f \<times> 'f \<times> 'f \<Rightarrow> 'f \<times> 'f \<times> 'f \<times> 'f \<Rightarrow> bool" where
  "bbox_within b b' =
     (case (b, b') of
        ((b0, b1, b2, b3), (m0, m1, m2, m3)) \<Rightarrow> m0 \<le> b0 \<and> m1 \<le> b1 \<and> b2 \<le> m2 \<and> b3 \<le> m3)"

text \<open>
  A node of the tree is reached by the names on its path: \<open>countries[c]\<close>,
  \<open>countries[c].regions[rg]\<close> or \<open>countries[c].regions[rg].places[p]\<close>.
\<close>

datatype path = AtCountry pystr | AtRegion pystr pystr | AtPlace pystr pystr pystr

fun node_at :: "(pystr \<times> 'f node) list \<Rightarrow> path \<Rightarrow> 'f node option" where
  "node_at countries (AtCountry c) = map_of countries c"
| "node_at countries (AtRegion c rg) =
     (case map_of countries c of None \<Rightarrow> None | Some cn \<Rightarrow> map_of (regions cn) rg)"
| "node_at countries (AtPlace c rg p) =
     (case map_of countries c of
        None \<Rightarrow> None
      | Some cn \<Rightarrow>
          (case map_of (regions cn) rg of None \<Rightarrow> None | Some rn \<Rightarrow> map_of (places rn) p))"

text \<open>The records that are folded into the node at a path are those that name it.\<close>

fun on_path :: "path \<Rightarrow> 'f norm \<Rightarrow> bool" where
  "on_path (AtCountry c) r = (r_country r = c)"
| "on_path (AtRegion c rg) r = (r_country r = c \<and> r_region r = rg)"
| "on_path (AtPlace c rg p) r = (r_country r = c \<and> r_region r = rg \<and> r_place r = p)"

fun path_name :: "path \<Rightarrow> pystr" where
  "path_name (AtCountry c) = c"
| "path_name (AtRegion c rg) = rg"
| "path_name (AtPlace c rg p) = p"

fun path_level :: "path \<Rightarrow> level" where
  "path_level (AtCountry c) = Country"
| "path_level (AtRegion c rg) = Region"
| "path_level (AtPlace c rg p) = Place"

text \<open>A node without its children, and \<open>update_node\<close> with the fields of a record.\<close>

definition bare :: "'f node \<Rightarrow> 'f node" where
  "bare n = set_places (set_regions n []) []"

definition update_with :: "('f::{plus,ord}) node \<Rightarrow> 'f norm \<Rightarrow> 'f node" where
  "update_with n r = update_node n (r_lat r) (r_lng r) (r_area r)"

text \<open>
  The three levels of lines 98 to 106, one function per level: what a record does to a place
  node, to a region node and to a country node.
\<close>

definition place_step :: "('f::{zero,plus,ord}) norm \<Rightarrow> 'f node \<Rightarrow> 'f node" where
  "place_step r place_node = update_with place_node r"

definition region_step :: "('f::{zero,plus,ord}) norm \<Rightarrow> 'f node \<Rightarrow> 'f node" where
  "region_step r region_node =
     update_with
       (set_places region_node
          (modify (r_place r) (place_step r)
             (setdefault (places region_node) (r_place r) (new_node (r_place r))))) r"

definition country_step :: "('f::{zero,plus,ord}) norm \<Rightarrow> 'f node \<Rightarrow> 'f node" where
  "country_step r country_node =
     update_with
       (set_regions country_node
          (modify (r_region r) (region_step r)
             (setdefault (regions country_node) (r_region r) (new_node (r_region r))))) r"




text \<open>
  A record carries a coordinate pair when both \<open>lat\<close> and \<open>lng\<close> are present; the areas that
  the records naming a node supplied, in stream order.
\<close>

definition has_coords :: "'f norm \<Rightarrow> bool" where
  "has_coords r \<longleftrightarrow> r_lat r \<noteq> None \<and> r_lng r \<noteq> None"

definition supplied_areas :: "path \<Rightarrow> 'f norm list \<Rightarrow> 'f list" where
  "supplied_areas pth recs = List.map_filter r_area (filter (on_path pth) recs)"


text \<open>The entry of a serialized dict under a key, and the keys of the dict stored there.\<close>

definition jfield :: "pystr \<Rightarrow> 'f json \<Rightarrow> 'f json option" where
  "jfield k j = (case j of JObj fs \<Rightarrow> map_of fs k | _ \<Rightarrow> None)"

definition child_keys :: "pystr \<Rightarrow> 'f json \<Rightarrow> pystr list" where
  "child_keys k j = (case jfield k j of Some (JObj fs) \<Rightarrow> map fst fs | _ \<Rightarrow> [])"

text \<open>A name value the normalizer can take: a string, or anything falsy.\<close>

definition textual :: "('f::zero) pyval \<Rightarrow> bool" where
  "textual v = (case v of PStr s \<Rightarrow> True | _ \<Rightarrow> \<not> truthy v)"

text \<open>The keys of every dict of the tree are distinct.\<close>

definition well_keyed_country :: "'f node \<Rightarrow> bool" where
  "well_keyed_country c \<longleftrightarrow>
     distinct (map fst (regions c)) \<and> (\<forall>(k, r) \<in> set (regions c). distinct (map fst (places r)))"

definition well_keyed :: "(pystr \<times> 'f node) list \<Rightarrow> bool" where
  "well_keyed countries \<longleftrightarrow>
     distinct (map fst countries) \<and> (\<forall>(k, c) \<in> set countries. well_keyed_country c)"



text \<open>
  Two values on which \<open>\<le>\<close> and \<open><\<close> behave as a linear order.  For Python floats that is:
  neither is NaN.
\<close>

definition comparable :: "'f::ord \<Rightarrow> 'f \<Rightarrow> bool" where
  "comparable a b \<longleftrightarrow>
     a \<le> a \<and> b \<le> b \<and> (a \<le> b \<or> b \<le> a) \<and> (a < b \<longleftrightarrow> \<not> b \<le> a) \<and> (b < a \<longleftrightarrow> \<not> a \<le> b)"

text \<open>The comparisons that \<open>update_node\<close> makes for a point \<open>(x, y)\<close> are between such values.\<close>

definition bbox_comparable :: "('f::ord \<times> 'f \<times> 'f \<times> 'f) option \<Rightarrow> 'f \<Rightarrow> 'f \<Rightarrow> bool" where
  "bbox_comparable bb x y =
     (case bb of
        None \<Rightarrow> comparable x x \<and> comparable y y
      | Some (b0, b1, b2, b3) \<Rightarrow>
          comparable b0 x \<and> comparable b1 y \<and> comparable b2 x \<and> comparable b3 y)"






section \<open>Python floats as IEEE doubles\<close>

text \<open>
  An instance of the float type for the examples and for the serializer's arithmetic: a
  finite double is the real number it stands for, next to the two infinities and NaN.  The
  two zeros are one value.  A finite result is the exact result rounded to the nearest
  double, ties to the even significand, and becomes an infinity from \<open>2 ^ 1024\<close> on.
\<close>

datatype float64 = Fin real | PInf | NInf | NaN

text \<open>The integer nearest to a real, a tie going to the even one.\<close>

definition rne :: "real \<Rightarrow> int" where
  "rne q =
     (let f = \<lfloor>q\<rfloor>; d = q - of_int f
      in if d < 1 / 2 then f else if 1 / 2 < d then f + 1 else if even f then f else f + 1)"

fun bit_length :: "nat \<Rightarrow> nat" where
  "bit_length n = (if n = 0 then 0 else Suc (bit_length (n div 2)))"

text \<open>For \<open>x > 0\<close>, the \<open>e\<close> with \<open>2 ^ e \<le> x < 2 ^ (e + 1)\<close>.\<close>

definition exponent :: "real \<Rightarrow> int" where
  "exponent x =
     (if 1 \<le> x then int (bit_length (nat \<lfloor>x\<rfloor>)) - 1
      else - int (bit_length (nat (\<lceil>1 / x\<rceil> - 1))))"

definition pow2 :: "int \<Rightarrow> real" where
  "pow2 k = (if 0 \<le> k then 2 ^ nat k else 1 / 2 ^ nat (- k))"

text \<open>The distance between the doubles around \<open>x\<close>: 53 significant bits, subnormals below \<open>2 ^ - 1022\<close>.\<close>

definition ulp :: "real \<Rightarrow> real" where
  "ulp x = pow2 (max (exponent \<bar>x\<bar>) (- 1022) - 52)"

definition round_nearest :: "real \<Rightarrow> real" where
  "round_nearest x = (if x = 0 then 0 else of_int (rne (x / ulp x)) * ulp x)"

definition to_float64 :: "real \<Rightarrow> float64" where
  "to_float64 x =
     (let y = round_nearest x
      in if pow2 1024 \<le> y then PInf else if y \<le> - pow2 1024 then NInf else Fin y)"

instantiation float64 :: "{zero,plus,ord}"
begin

definition zero_float64 :: float64 where
  "zero_float64 = Fin 0"

fun plus_float64 :: "float64 \<Rightarrow> float64 \<Rightarrow> float64" where
  "plus_float64 (Fin a) (Fin b) = to_float64 (a + b)"
| "plus_float64 NaN _ = NaN"
| "plus_float64 _ NaN = NaN"
| "plus_float64 PInf NInf = NaN"
| "plus_float64 NInf PInf = NaN"
| "plus_float64 PInf _ = PInf"
| "plus_float64 _ PInf = PInf"
| "plus_float64 NInf _ = NInf"
| "plus_float64 _ NInf = NInf"

text \<open>Every comparison with NaN is false.\<close>

fun less_float64 :: "float64 \<Rightarrow> float64 \<Rightarrow> bool" where
  "less_float64 (Fin a) (Fin b) = (a < b)"
| "less_float64 NaN _ = False"
| "less_float64 _ NaN = False"
| "less_float64 _ NInf = False"
| "less_float64 PInf _ = False"
| "less_float64 NInf _ = True"
| "less_float64 _ PInf = True"

definition less_eq_float64 :: "float64 \<Rightarrow> float64 \<Rightarrow> bool" where
  "less_eq_float64 a b \<longleftrightarrow> a < b \<or> (a = b \<and> a \<noteq> NaN)"

instance ..

end

text \<open>
  \<open>round(v, 6)\<close>: the decimal with 6 digits nearest to the exact value of \<open>v\<close>, a tie going to
  the even last digit, converted back to the nearest double; infinities and NaN are returned
  as they are.
\<close>

fun round6 :: "float64 \<Rightarrow> float64" where
  "round6 (Fin x) = to_float64 (of_int (rne (x * 1000000)) / 1000000)"
| "round6 v = v"

text \<open>
  \<open>v / k\<close> for a float \<open>v\<close> and an int \<open>k\<close>: \<open>k\<close> is converted to the nearest double and the
  exact quotient is rounded.  The serializer divides by \<open>has_center\<close> only when it is not 0,
  and a count of records is far below \<open>2 ^ 1024\<close>, where the conversion would raise.
\<close>

fun truediv :: "float64 \<Rightarrow> int \<Rightarrow> float64" where
  "truediv (Fin x) k = to_float64 (x / round_nearest (of_int k))"
| "truediv PInf k = (if 0 < k then PInf else NInf)"
| "truediv NInf k = (if 0 < k then NInf else PInf)"
| "truediv NaN k = NaN"

section \<open>Example inputs\<close>




definition drained :: "real norm" where
  "drained = \<lparr>r_country = ustr ''Chile'', r_region = ustr ''RM'', r_place = ustr ''Maipu'',
              r_lat = None, r_lng = None, r_area = Some (-1)\<rparr>"

text \<open>
  For the examples: rounding a real to 6 decimals, half to even, and the exact quotient.
  The theorems take \<open>round(\<cdot>, 6)\<close> and the division as parameters.
\<close>

definition decimal6 :: "real \<Rightarrow> real" where
  "decimal6 x =
     (let y = x * 1000000; f = \<lfloor>y\<rfloor>; d = y - of_int f
      in of_int (if d < 1 / 2 then f else if 1 / 2 < d then f + 1 else if even f then f else f + 1)
         / 1000000)"

definition exact_div :: "real \<Rightarrow> int \<Rightarrow> real" where
  "exact_div x k = x / of_int k"

definition dict_a :: "(pystr \<times> real node) list" where
  "dict_a = [(ustr ''RM'', new_node (ustr ''RM'')), (ustr ''Arica'', new_node (ustr ''Arica''))]"

definition dict_b :: "(pystr \<times> real node) list" where
  "dict_b = [(ustr ''Arica'', new_node (ustr ''Arica'')), (ustr ''RM'', new_node (ustr ''RM''))]"

text \<open>
  The builtin \<open>float\<close> on the reals, for the examples: a float is itself, an int is rounded
  to the nearest double and raises \<open>OverflowError\<close> when that is \<open>2 ^ 1024\<close> or beyond,
  \<open>None\<close> and a list raise \<open>TypeError\<close>, a string is parsed by \<open>parse\<close> and raises
  \<open>ValueError\<close> when \<open>parse\<close> gives nothing.  \<open>no_parse\<close> serves where no string reaches
  \<open>float\<close>.
\<close>

fun float_builtin :: "(pystr \<Rightarrow> real option) \<Rightarrow> real pyval \<Rightarrow> pyerr + real" where
  "float_builtin parse PNone = Inl TypeError"
| "float_builtin parse (PBool b) = Inr (if b then 1 else 0)"
| "float_builtin parse (PInt i) =
     (let y = round_nearest (of_int i)
      in if pow2 1024 \<le> \<bar>y\<bar> then Inl OverflowError else Inr y)"
| "float_builtin parse (PFloat f) = Inr f"
| "float_builtin parse (PStr s) = (case parse s of None \<Rightarrow> Inl ValueError | Some f \<Rightarrow> Inr f)"
| "float_builtin parse (PList l) = Inl TypeError"

definition no_parse :: "pystr \<Rightarrow> real option" where
  "no_parse s = None"

text \<open>An archive of three raw tiles, numbered; tile 0 does not decode.\<close>

definition maipu_props :: "real props" where
  "maipu_props =
     [(ustr ''country'', PStr (ustr ''Chile'')), (ustr ''region'', PStr (ustr ''RM'')),
      (ustr ''place'', PStr (ustr ''Maipu'')), (ustr ''lat'', PFloat (-33.5)),
      (ustr ''lng'', PFloat (-70.7)), (ustr ''area'', PFloat 120)]"

definition santiago_props :: "real props" where
  "santiago_props =
     [(ustr ''country'', PStr (ustr ''Chile'')), (ustr ''region'', PStr (ustr ''RM'')),
      (ustr ''place'', PStr (ustr ''Santiago'')), (ustr ''area'', PFloat 50)]"

definition example_decode :: "nat \<Rightarrow> real tile option" where
  "example_decode raw =
     (if raw = 0 then None
      else if raw = 1 then Some [(LAYER_NAME, [Some maipu_props])]
      else Some [(LAYER_NAME, [Some santiago_props])])"

text \<open>Records with doubles: areas whose float sum depends on the grouping, and a point whose
  coordinates have seven decimals.\<close>

definition ocean :: "float64 norm" where
  "ocean = \<lparr>r_country = ustr ''Chile'', r_region = ustr ''RM'', r_place = ustr ''Maipu'',
            r_lat = None, r_lng = None, r_area = Some (Fin 9007199254740992)\<rparr>"

definition pond :: "float64 norm" where
  "pond = \<lparr>r_country = ustr ''Chile'', r_region = ustr ''Arica'', r_place = ustr ''Arica'',
           r_lat = None, r_lng = None, r_area = Some (Fin 1)\<rparr>"

definition pool :: "float64 norm" where
  "pool = \<lparr>r_country = ustr ''Chile'', r_region = ustr ''Arica'', r_place = ustr ''Azapa'',
           r_lat = None, r_lng = None, r_area = Some (Fin 1)\<rparr>"

definition dock :: "float64 norm" where
  "dock = \<lparr>r_country = ustr ''Chile'', r_region = ustr ''RM'', r_place = ustr ''Maipu'',
           r_lat = Some (Fin 0.0078125), r_lng = Some (Fin 0.0078125), r_area = None\<rparr>"

section \<open>Evaluating the doubles\<close>

declare bit_length.simps [simp del]

lemmas f64_eval = to_float64_def round_nearest_def ulp_def pow2_def exponent_def rne_def Let_def
  bit_length.simps zero_float64_def less_eq_float64_def

section \<open>The per-node update\<close>

lemma regions_update_node [simp]: "regions (update_node n lat lng ar) = regions n"
  by (cases n) (simp add: Let_def split: option.splits)

lemma places_update_node [simp]: "places (update_node n lat lng ar) = places n"
  by (cases n) (simp add: Let_def split: option.splits)

lemma name_update_node [simp]: "name (update_node n lat lng ar) = name n"
  by (cases n) (simp add: Let_def split: option.splits)

text \<open>What \<open>update_node\<close> returns, with no law of the order or the addition assumed.\<close>

lemma update_node_exact:
  "update_node (Node nm c a bb slng slat hc rs ps) (Some y) (Some x) ar =
     Node nm (c + 1) (case ar of None \<Rightarrow> a | Some v \<Rightarrow> a + v)
       (Some (case bb of
                None \<Rightarrow> (x, y, x, y)
              | Some (b0, b1, b2, b3) \<Rightarrow> (py_min b0 x, py_min b1 y, py_max b2 x, py_max b3 y)))
       (slng + x) (slat + y) (hc + 1) rs ps"
  "lat = None \<or> lng = None \<Longrightarrow>
   update_node (Node nm c a bb slng slat hc rs ps) lat lng ar =
     Node nm (c + 1) (case ar of None \<Rightarrow> a | Some v \<Rightarrow> a + v) bb slng slat hc rs ps"
  by (auto simp: Let_def split: option.splits)

lemma py_min_comparable: "comparable a b \<Longrightarrow> py_min a b \<le> a \<and> py_min a b \<le> b"
  by (auto simp: comparable_def py_min_def)

lemma py_max_comparable: "comparable a b \<Longrightarrow> a \<le> py_max a b \<and> b \<le> py_max a b"
  by (auto simp: comparable_def py_max_def)

text \<open>Two doubles are comparable exactly when neither is NaN.\<close>

lemma comparable_float64: "comparable a (b::float64) \<longleftrightarrow> a \<noteq> NaN \<and> b \<noteq> NaN"
  by (cases a; cases b) (auto simp: comparable_def less_eq_float64_def)

text \<open>
  C1, as amended.  On a node, \<open>update_node\<close> adds 1 to \<open>count\<close> whatever the record holds; it
  adds the record's area to \<open>area\<close> when the area is present and leaves \<open>area\<close> as it is
  otherwise.  When both \<open>lat\<close> and \<open>lng\<close> are present, the bbox becomes the point itself (no
  bbox before) or, component by component, Python's \<open>min\<close> and \<open>max\<close> of the old bound and the
  coordinate; \<open>lng\<close> and \<open>lat\<close> are added to the centroid sums and \<open>has_center\<close> grows by 1.
  The new bbox holds the point and the bbox before when the values compared are comparable,
  that is when none of them is NaN.  When \<open>lat\<close> or \<open>lng\<close> is absent, bbox, centroid sums and
  \<open>has_center\<close> stay as they are.  No law of the order or of the addition is assumed.
\<close>

theorem update_node_rule:
  fixes n :: "('f::{plus,ord}) node"
  shows
  "count (update_node n lat lng ar) = count n + 1
   \<and> area (update_node n lat lng ar) = (case ar of None \<Rightarrow> area n | Some v \<Rightarrow> area n + v)
   \<and> (\<forall>y x. lat = Some y \<and> lng = Some x \<longrightarrow>
         bbox (update_node n lat lng ar) =
           Some (case bbox n of
                   None \<Rightarrow> (x, y, x, y)
                 | Some (b0, b1, b2, b3) \<Rightarrow> (py_min b0 x, py_min b1 y, py_max b2 x, py_max b3 y))
         \<and> (bbox_comparable (bbox n) x y \<longrightarrow>
              (\<forall>b. bbox (update_node n lat lng ar) = Some b \<longrightarrow>
                 in_bbox (x, y) b \<and> (\<forall>b'. bbox n = Some b' \<longrightarrow> bbox_within b' b)))
         \<and> sum_lng (update_node n lat lng ar) = sum_lng n + x
         \<and> sum_lat (update_node n lat lng ar) = sum_lat n + y
         \<and> has_center (update_node n lat lng ar) = has_center n + 1)
   \<and> (lat = None \<or> lng = None \<longrightarrow>
         bbox (update_node n lat lng ar) = bbox n
         \<and> sum_lng (update_node n lat lng ar) = sum_lng n
         \<and> sum_lat (update_node n lat lng ar) = sum_lat n
         \<and> has_center (update_node n lat lng ar) = has_center n)"
proof (cases n)
  case (Node nm c a bb slng slat hc rs ps)
  have cont: "in_bbox (x, y) (py_min b0 x, py_min b1 y, py_max b2 x, py_max b3 y)
              \<and> bbox_within (b0, b1, b2, b3) (py_min b0 x, py_min b1 y, py_max b2 x, py_max b3 y)"
    if "comparable b0 x" "comparable b1 y" "comparable b2 x" "comparable b3 y"
    for b0 b1 b2 b3 x y :: 'f
    using py_min_comparable [OF that(1)] py_min_comparable [OF that(2)]
          py_max_comparable [OF that(3)] py_max_comparable [OF that(4)]
    by (simp add: in_bbox_def bbox_within_def)
  have init: "in_bbox (x, y) (x, y, x, y)" if "comparable x x" "comparable y y" for x y :: 'f
    using that by (simp add: in_bbox_def comparable_def)
  show ?thesis
    using cont init
    by (cases bb) (auto simp: Node Let_def bbox_comparable_def split: option.splits)
qed

theorem update_node_rule_witness:
  "update_node
     (Node (ustr ''RM'') 1 (Fin 120) (Some (Fin 3, Fin 1, Fin 3, Fin 1)) (Fin 3) (Fin 1) 1 [] [])
     (Some (Fin 2)) (Some (Fin 1)) (Some (Fin 50))
   = Node (ustr ''RM'') 2 (Fin 170) (Some (Fin 1, Fin 1, Fin 3, Fin 2)) (Fin 4) (Fin 3) 2 [] []
   \<and> bbox_comparable (Some (Fin 3, Fin 1, Fin 3, Fin 1)) (Fin 1) (Fin 2)
   \<and> in_bbox (Fin 1, Fin 2) (Fin 1, Fin 1, Fin 3, Fin 2)
   \<and> update_node
     (Node (ustr ''RM'') 1 (Fin 120) (Some (Fin 3, Fin 1, Fin 3, Fin 1)) (Fin 3) (Fin 1) 1 [] [])
     None (Some (Fin 1)) None
   = Node (ustr ''RM'') 2 (Fin 120) (Some (Fin 3, Fin 1, Fin 3, Fin 1)) (Fin 3) (Fin 1) 1 [] []"
  using update_node_rule
          [of "Node (ustr ''RM'') 1 (Fin 120) (Some (Fin 3, Fin 1, Fin 3, Fin 1)) (Fin 3) (Fin 1) 1 [] []"
              "Some (Fin 2)" "Some (Fin 1)" "Some (Fin 50)"]
        update_node_rule
          [of "Node (ustr ''RM'') 1 (Fin 120) (Some (Fin 3, Fin 1, Fin 3, Fin 1)) (Fin 3) (Fin 1) 1 [] []"
              "None" "Some (Fin 1)" "None"]
  by (simp add: py_min_def py_max_def in_bbox_def bbox_within_def bbox_comparable_def
        comparable_float64 f64_eval)

text \<open>
  C1 as stated fails: \<open>float("nan")\<close> is a float, so a record may carry NaN as a coordinate.
  After a record with \<open>lat = nan, lng = 1.0\<close> the bbox is \<open>[1.0, nan, 1.0, nan]\<close>; the record
  \<open>lat = 5.0, lng = 2.0\<close> then leaves both latitude bounds NaN, since \<open>5.0 < nan\<close> and
  \<open>nan < 5.0\<close> are false, and the bbox does not hold the point \<open>(2.0, 5.0)\<close>.
\<close>

theorem bbox_excludes_point_counterexample:
  "update_node (update_node (new_node (ustr ''RM'')) (Some NaN) (Some (Fin 1)) None)
     (Some (Fin 5)) (Some (Fin 2)) None
   = Node (ustr ''RM'') 2 (Fin 0) (Some (Fin 1, NaN, Fin 2, NaN)) (Fin 3) NaN 2 [] []
   \<and> \<not> in_bbox (Fin 2, Fin 5) (Fin 1, NaN, Fin 2, NaN)"
  by (simp add: new_node_def py_min_def py_max_def in_bbox_def f64_eval)

section \<open>Dictionaries and the steps of the fold\<close>

lemma aggregate_steps:
  "aggregate cs r =
     modify (r_country r) (country_step r) (setdefault cs (r_country r) (new_node (r_country r)))"
  by (simp add: aggregate_def country_step_def [abs_def] region_step_def [abs_def]
        place_step_def [abs_def] update_with_def)

lemma keys_modify [simp]: "map fst (modify k f d) = map fst d"
  by (induction d) (auto simp: modify_def)

lemma keys_setdefault:
  "map fst (setdefault d k v) = (if k \<in> set (map fst d) then map fst d else map fst d @ [k])"
  by (auto simp: setdefault_def map_of_eq_None_iff split: option.splits
           intro: rev_image_eqI dest: map_of_SomeD)

lemma distinct_setdefault: "distinct (map fst d) \<Longrightarrow> distinct (map fst (setdefault d k v))"
  by (simp add: keys_setdefault)


lemma set_setdefault: "set (setdefault d k v) \<subseteq> insert (k, v) (set d)"
  by (auto simp: setdefault_def split: option.splits)

lemma set_modify:
  "(k', v') \<in> set (modify k f d) \<Longrightarrow>
     (k' = k \<and> (\<exists>v. (k, v) \<in> set d \<and> v' = f v)) \<or> (k' \<noteq> k \<and> (k', v') \<in> set d)"
  by (auto simp: modify_def split: if_splits)





lemma count_update_node [simp]: "count (update_node n lat lng ar) = count n + 1"
  by (cases n) (simp add: Let_def split: option.splits)

lemma area_update_node:
  "area (update_node n lat lng ar) = (case ar of None \<Rightarrow> area n | Some v \<Rightarrow> area n + v)"
  by (cases n) (simp add: Let_def split: option.splits)

lemma count_set_regions [simp]: "count (set_regions n rs) = count n"
  by (cases n) simp

lemma count_set_places [simp]: "count (set_places n ps) = count n"
  by (cases n) simp

lemma area_set_regions [simp]: "area (set_regions n rs) = area n"
  by (cases n) simp

lemma area_set_places [simp]: "area (set_places n ps) = area n"
  by (cases n) simp

lemma regions_set_regions [simp]: "regions (set_regions n rs) = rs"
  by (cases n) simp

lemma places_set_regions [simp]: "places (set_regions n rs) = places n"
  by (cases n) simp

lemma regions_set_places [simp]: "regions (set_places n ps) = regions n"
  by (cases n) simp

lemma places_set_places [simp]: "places (set_places n ps) = ps"
  by (cases n) simp

lemma regions_new_node [simp]: "regions (new_node nm) = []"
  by (simp add: new_node_def)

lemma places_new_node [simp]: "places (new_node nm) = []"
  by (simp add: new_node_def)

lemma count_new_node [simp]: "count (new_node nm) = 0"
  by (simp add: new_node_def)

lemma area_new_node [simp]: "area (new_node nm) = 0"
  by (simp add: new_node_def)



lemma all_get_or_create:
  assumes "\<forall>(k, n) \<in> set d. P n" and "P v" and "\<And>n. P n \<Longrightarrow> P (f n)"
  shows "\<forall>(k', n) \<in> set (modify k f (setdefault d k v)). P n"
proof -
  have "\<forall>(k', n) \<in> set (setdefault d k v). P n"
    using assms(1,2) set_setdefault [of d k v] by auto
  then show ?thesis
    using assms(3) by (auto dest!: set_modify)
qed

lemma fold_records_snoc: "fold_records (rs @ [r]) = aggregate (fold_records rs) r"
  by (simp add: fold_records_def)

lemmas fold_eval = fold_records_def aggregate_def setdefault_def modify_def new_node_def ustr_def
  py_min_def py_max_def

section \<open>Invariants of the counters\<close>










section \<open>The node at a path\<close>

lemma map_of_setdefault:
  "map_of (setdefault d k v) k' =
     (case map_of d k' of Some x \<Rightarrow> Some x | None \<Rightarrow> if k' = k then Some v else None)"
  by (auto simp: setdefault_def map_add_def split: option.splits)

lemma map_of_modify:
  "map_of (modify k f d) k' = (if k' = k then map_option f (map_of d k') else map_of d k')"
  by (induction d) (auto simp: modify_def)

lemma map_of_get_or_create:
  "map_of (modify k f (setdefault d k v)) k' =
     (if k' = k then Some (f (case map_of d k of None \<Rightarrow> v | Some x \<Rightarrow> x)) else map_of d k')"
  by (auto simp: map_of_modify map_of_setdefault split: option.splits)

lemma bare_update_node: "bare (update_node n lat lng ar) = update_node (bare n) lat lng ar"
  by (cases n) (simp add: bare_def Let_def split: option.splits)

lemma bare_set_regions [simp]: "bare (set_regions n rs) = bare n"
  by (cases n) (simp add: bare_def)

lemma bare_set_places [simp]: "bare (set_places n ps) = bare n"
  by (cases n) (simp add: bare_def)

lemma bare_new_node [simp]: "bare (new_node nm) = new_node nm"
  by (simp add: bare_def new_node_def)

lemma node_at_aggregate:
  "map_option bare (node_at (aggregate cs r) pth) =
     (if on_path pth r
      then Some (update_with
                   (case node_at cs pth of None \<Rightarrow> new_node (path_name pth) | Some n \<Rightarrow> bare n) r)
      else map_option bare (node_at cs pth))"
proof (cases pth)
  case (AtCountry c)
  then show ?thesis
    by (auto simp: aggregate_def map_of_get_or_create update_with_def bare_update_node
             split: option.splits)
next
  case (AtRegion c rg)
  then show ?thesis
    by (auto simp: aggregate_def map_of_get_or_create update_with_def bare_update_node
             split: option.splits)
next
  case (AtPlace c rg p)
  then show ?thesis
    by (auto simp: aggregate_def map_of_get_or_create update_with_def bare_update_node
             split: option.splits)
qed

text \<open>
  The node at a path exists exactly when a record names it, and its statistics are those of
  a fresh node updated with the records that name it, in stream order.
\<close>

lemma node_at_fold_records:
  "map_option bare (node_at (fold_records recs) pth) =
     (if filter (on_path pth) recs = [] then None
      else Some (foldl update_with (new_node (path_name pth)) (filter (on_path pth) recs)))"
proof (induction recs rule: rev_induct)
  case Nil
  show ?case by (cases pth) (simp_all add: fold_records_def)
next
  case (snoc r recs)
  show ?case
  proof (cases "on_path pth r")
    case True
    then show ?thesis
      using snoc.IH
      by (cases "node_at (fold_records recs) pth")
         (auto simp: fold_records_snoc node_at_aggregate split: if_splits)
  next
    case False
    then show ?thesis
      using snoc.IH by (simp add: fold_records_snoc node_at_aggregate)
  qed
qed

lemma node_at_bare:
  assumes "node_at (fold_records recs) pth = Some n"
  shows "bare n = foldl update_with (new_node (path_name pth)) (filter (on_path pth) recs)"
    and "filter (on_path pth) recs \<noteq> []"
  using node_at_fold_records [of recs pth] assms by (auto split: if_splits)

lemma area_bare [simp]: "area (bare n) = area n"
  by (cases n) (simp add: bare_def)

lemma has_center_bare [simp]: "has_center (bare n) = has_center n"
  by (cases n) (simp add: bare_def)

lemma bbox_bare [simp]: "bbox (bare n) = bbox n"
  by (cases n) (simp add: bare_def)

lemma sum_lng_bare [simp]: "sum_lng (bare n) = sum_lng n"
  by (cases n) (simp add: bare_def)

lemma sum_lat_bare [simp]: "sum_lat (bare n) = sum_lat n"
  by (cases n) (simp add: bare_def)

lemma count_bare [simp]: "count (bare n) = count n"
  by (cases n) (simp add: bare_def)

lemma area_update_with:
  "area (update_with n r) = (case r_area r of None \<Rightarrow> area n | Some v \<Rightarrow> area n + v)"
  by (simp add: update_with_def area_update_node)

lemma area_foldl_update_with:
  "area (foldl update_with n rs) = foldl (+) (area n) (List.map_filter r_area rs)"
proof (induction rs arbitrary: n)
  case Nil
  show ?case by simp
next
  case (Cons r rs)
  show ?case
    by (cases "r_area r") (simp_all add: Cons.IH area_update_with)
qed

lemma has_center_update_with:
  "has_center (update_with n r) = has_center n + (if has_coords r then 1 else 0)"
  by (cases n) (auto simp: update_with_def has_coords_def Let_def split: option.splits)

lemma bbox_update_with:
  "bbox (update_with n r) = None \<longleftrightarrow> bbox n = None \<and> \<not> has_coords r"
  by (cases n) (auto simp: update_with_def has_coords_def Let_def split: option.splits)

lemma has_center_foldl_update_with:
  "has_center (foldl update_with n rs) = has_center n + int (length (filter has_coords rs))"
  by (induction rs arbitrary: n) (simp_all add: has_center_update_with)

lemma bbox_foldl_update_with:
  "bbox (foldl update_with n rs) = None \<longleftrightarrow> bbox n = None \<and> (\<forall>r \<in> set rs. \<not> has_coords r)"
proof (induction rs arbitrary: n)
  case Nil
  show ?case by simp
next
  case (Cons r rs)
  show ?case
    by (simp only: foldl_Cons Cons.IH bbox_update_with set_simps ball_simps) blast
qed

lemma count_foldl_update_with:
  "count (foldl update_with n rs) = count n + int (length rs)"
  by (induction rs arbitrary: n) (simp_all add: update_with_def)

lemma distinct_places_region_step:
  "distinct (map fst (places n)) \<Longrightarrow> distinct (map fst (places (region_step r n)))"
  by (simp add: region_step_def update_with_def distinct_setdefault)

lemma well_keyed_country_step:
  assumes "well_keyed_country n"
  shows "well_keyed_country (country_step r n)"
proof -
  have d: "distinct (map fst (regions n))"
    and rs: "\<forall>(k, x) \<in> set (regions n). distinct (map fst (places x))"
    using assms by (simp_all add: well_keyed_country_def)
  have new: "distinct (map fst (places (new_node (r_region r) :: 'a node)))"
    by simp
  have "\<forall>(k, x) \<in> set (modify (r_region r) (region_step r)
            (setdefault (regions n) (r_region r) (new_node (r_region r)))).
          distinct (map fst (places x))"
    using rs new distinct_places_region_step by (rule all_get_or_create)
  then have "\<forall>(k, x) \<in> set (regions (country_step r n)). distinct (map fst (places x))"
    by (simp add: country_step_def update_with_def)
  moreover have "distinct (map fst (regions (country_step r n)))"
    using d by (simp add: country_step_def update_with_def distinct_setdefault)
  ultimately show ?thesis by (simp add: well_keyed_country_def)
qed

lemma well_keyed_aggregate:
  assumes "well_keyed cs"
  shows "well_keyed (aggregate cs r)"
proof -
  have d: "distinct (map fst cs)" and all: "\<forall>(k, c) \<in> set cs. well_keyed_country c"
    using assms by (simp_all add: well_keyed_def)
  have new: "well_keyed_country (new_node nm :: 'a node)" for nm
    by (simp add: well_keyed_country_def)
  have "\<forall>(k, c) \<in> set (aggregate cs r). well_keyed_country c"
    unfolding aggregate_steps using all new well_keyed_country_step by (rule all_get_or_create)
  moreover have "distinct (map fst (aggregate cs r))"
    using d by (simp add: aggregate_steps distinct_setdefault)
  ultimately show ?thesis by (simp add: well_keyed_def)
qed

lemma well_keyed_fold_records: "well_keyed (fold_records recs)"
proof (induction recs rule: rev_induct)
  case Nil
  show ?case by (simp add: fold_records_def well_keyed_def)
next
  case (snoc r recs)
  then show ?case by (simp add: fold_records_snoc well_keyed_aggregate)
qed

text \<open>
  Every node of the tree is the node at a path: the dicts have distinct keys, so an entry is
  what a lookup of its key gives.
\<close>

lemma every_node_at_a_path:
  assumes c: "(k, c) \<in> set (fold_records recs)"
  shows "node_at (fold_records recs) (AtCountry k) = Some c"
    and "(k', r) \<in> set (regions c) \<Longrightarrow> node_at (fold_records recs) (AtRegion k k') = Some r"
    and "(k', r) \<in> set (regions c) \<Longrightarrow> (k'', p) \<in> set (places r) \<Longrightarrow>
           node_at (fold_records recs) (AtPlace k k' k'') = Some p"
proof -
  have wk: "well_keyed (fold_records recs)" by (rule well_keyed_fold_records)
  then have "distinct (map fst (fold_records recs))" by (simp add: well_keyed_def)
  with c show 1: "node_at (fold_records recs) (AtCountry k) = Some c" by simp
  have wc: "well_keyed_country c" using wk c by (auto simp: well_keyed_def)
  {
    assume r: "(k', r) \<in> set (regions c)"
    have "distinct (map fst (regions c))" using wc by (simp add: well_keyed_country_def)
    with r have 2: "map_of (regions c) k' = Some r" by simp
    with 1 show "node_at (fold_records recs) (AtRegion k k') = Some r" by simp
    assume p: "(k'', p) \<in> set (places r)"
    have "distinct (map fst (places r))" using wc r by (auto simp: well_keyed_country_def)
    with p have "map_of (places r) k'' = Some p" by simp
    with 1 2 show "node_at (fold_records recs) (AtPlace k k' k'') = Some p" by simp
  }
qed






section \<open>Count and area of a node and of its children\<close>





















section \<open>Area\<close>

lemma area_node_at:
  assumes "node_at (fold_records recs) pth = Some n"
  shows "area n = foldl (+) 0 (supplied_areas pth recs)"
proof -
  have "area n = area (bare n)" by simp
  also have "\<dots> = area (foldl update_with (new_node (path_name pth)) (filter (on_path pth) recs))"
    using node_at_bare(1) [OF assms] by simp
  finally show ?thesis
    by (simp add: area_foldl_update_with supplied_areas_def)
qed

lemma pow2_pos: "0 < pow2 k"
  by (simp add: pow2_def)

lemma rne_nonneg: "0 \<le> q \<Longrightarrow> 0 \<le> rne q"
  by (simp add: rne_def Let_def)

lemma round_nearest_nonneg: "0 \<le> x \<Longrightarrow> 0 \<le> round_nearest x"
  by (simp add: round_nearest_def ulp_def rne_nonneg pow2_pos less_imp_le)

lemma to_float64_nonneg: "0 \<le> x \<Longrightarrow> 0 \<le> to_float64 x"
proof -
  assume "0 \<le> x"
  then have r: "0 \<le> round_nearest x" by (rule round_nearest_nonneg)
  have "\<not> round_nearest x \<le> - pow2 1024"
    using r pow2_pos [of 1024] by linarith
  then show ?thesis
    using r by (auto simp: to_float64_def Let_def zero_float64_def less_eq_float64_def)
qed

lemma float64_nonneg: "0 \<le> (a::float64) \<longleftrightarrow> a = PInf \<or> (\<exists>x. a = Fin x \<and> 0 \<le> x)"
  by (cases a) (auto simp: zero_float64_def less_eq_float64_def)

text \<open>The sum of two doubles that are not negative is not negative.\<close>

lemma float64_add_nonneg: "0 \<le> a \<Longrightarrow> 0 \<le> b \<Longrightarrow> 0 \<le> a + (b::float64)"
proof -
  assume a: "0 \<le> a" and b: "0 \<le> b"
  show ?thesis
  proof (cases a)
    case (Fin x)
    show ?thesis
    proof (cases b)
      case (Fin y)
      have "0 \<le> x + y" using a b \<open>a = Fin x\<close> Fin by (simp add: float64_nonneg)
      then show ?thesis using \<open>a = Fin x\<close> Fin by (simp add: to_float64_nonneg)
    qed (use b \<open>a = Fin x\<close> in \<open>auto simp: float64_nonneg\<close>)
  next
    case PInf
    then show ?thesis using b by (cases b) (auto simp: float64_nonneg)
  qed (use a in \<open>auto simp: float64_nonneg\<close>)
qed

lemma foldl_add_nonneg_general:
  fixes a :: "'f::{zero,plus,ord}"
  assumes add: "\<forall>a b::'f. 0 \<le> a \<and> 0 \<le> b \<longrightarrow> 0 \<le> a + b"
  shows "0 \<le> a \<Longrightarrow> \<forall>x \<in> set xs. 0 \<le> x \<Longrightarrow> 0 \<le> foldl (+) a xs"
  using add by (induction xs arbitrary: a) simp_all

text \<open>
  C6, as amended.  For the node at any path of the tree after folding any stream of
  records, of which \<open>a\<^sub>1 \<dots> a\<^sub>k\<close> are the areas supplied by the records that name the
  node: the node's area is the float sum \<open>((0.0 + a\<^sub>1) + \<dots>) + a\<^sub>k\<close>, taken in stream order,
  whatever the addition of the floats is.  It is \<open>\<ge> 0\<close> when every supplied area is, given
  what holds of doubles: \<open>0.0 \<le> 0.0\<close>, and the sum of two floats that are \<open>\<ge> 0\<close> is \<open>\<ge> 0\<close>.
\<close>

theorem area_is_sum_of_supplied:
  fixes recs :: "('f::{zero,plus,ord}) norm list"
  assumes "node_at (fold_records recs) pth = Some n"
  shows "area n = foldl (+) 0 (supplied_areas pth recs)
         \<and> ((0::'f) \<le> 0 \<and> (\<forall>a b::'f. 0 \<le> a \<and> 0 \<le> b \<longrightarrow> 0 \<le> a + b)
              \<and> (\<forall>a \<in> set (supplied_areas pth recs). 0 \<le> a)
            \<longrightarrow> 0 \<le> area n)"
  using area_node_at [OF assms] by (auto intro: foldl_add_nonneg_general)

theorem area_is_sum_of_supplied_witness:
  "node_at (fold_records [ocean, pond, pool]) (AtCountry (ustr ''Chile''))
     = Some (Node (ustr ''Chile'') 3 (Fin 9007199254740992) None 0 0 0
              [(ustr ''RM'', Node (ustr ''RM'') 1 (Fin 9007199254740992) None 0 0 0 []
                  [(ustr ''Maipu'', Node (ustr ''Maipu'') 1 (Fin 9007199254740992) None 0 0 0 [] [])]),
               (ustr ''Arica'', Node (ustr ''Arica'') 2 (Fin 2) None 0 0 0 []
                  [(ustr ''Arica'', Node (ustr ''Arica'') 1 (Fin 1) None 0 0 0 [] []),
                   (ustr ''Azapa'', Node (ustr ''Azapa'') 1 (Fin 1) None 0 0 0 [] [])])] [])
   \<and> supplied_areas (AtCountry (ustr ''Chile'')) [ocean, pond, pool]
       = [Fin 9007199254740992, Fin 1, Fin 1]
   \<and> foldl (+) 0 [Fin 9007199254740992, Fin 1, Fin 1] = Fin 9007199254740992
   \<and> (0::float64) \<le> Fin 9007199254740992"
proof -
  have n: "node_at (fold_records [ocean, pond, pool]) (AtCountry (ustr ''Chile''))
     = Some (Node (ustr ''Chile'') 3 (Fin 9007199254740992) None 0 0 0
              [(ustr ''RM'', Node (ustr ''RM'') 1 (Fin 9007199254740992) None 0 0 0 []
                  [(ustr ''Maipu'', Node (ustr ''Maipu'') 1 (Fin 9007199254740992) None 0 0 0 [] [])]),
               (ustr ''Arica'', Node (ustr ''Arica'') 2 (Fin 2) None 0 0 0 []
                  [(ustr ''Arica'', Node (ustr ''Arica'') 1 (Fin 1) None 0 0 0 [] []),
                   (ustr ''Azapa'', Node (ustr ''Azapa'') 1 (Fin 1) None 0 0 0 [] [])])] [])"
    by (simp add: fold_eval ocean_def pond_def pool_def f64_eval)
  have s: "supplied_areas (AtCountry (ustr ''Chile'')) [ocean, pond, pool]
       = [Fin 9007199254740992, Fin 1, Fin 1]"
    by (simp add: supplied_areas_def ocean_def pond_def pool_def)
  have z: "(0::float64) \<le> 0" by (simp add: zero_float64_def less_eq_float64_def)
  have c: "\<forall>a b::float64. 0 \<le> a \<and> 0 \<le> b \<longrightarrow> 0 \<le> a + b"
    by (simp add: float64_add_nonneg)
  have p: "\<forall>a \<in> set (supplied_areas (AtCountry (ustr ''Chile'')) [ocean, pond, pool]). 0 \<le> a"
    unfolding s by (simp add: float64_nonneg)
  from area_is_sum_of_supplied [OF n] z c p
  have "Fin 9007199254740992 = foldl (+) 0 [Fin 9007199254740992, Fin 1, Fin 1]
        \<and> (0::float64) \<le> Fin 9007199254740992"
    unfolding s by simp
  with n s show ?thesis by simp
qed

text \<open>
  C6 as stated fails: a record may supply a negative area, and nothing in the fold rejects
  it, so the area of the nodes it names becomes negative.
\<close>

theorem area_negative_counterexample:
  "map_option area (node_at (fold_records [drained]) (AtPlace (ustr ''Chile'') (ustr ''RM'') (ustr ''Maipu'')))
     = Some (-1)
   \<and> map_option area (node_at (fold_records [drained]) (AtCountry (ustr ''Chile''))) = Some (-1)
   \<and> \<not> (0::real) \<le> -1"
  by (simp add: fold_eval drained_def)

section \<open>The serialized node\<close>

lemma map_of_node_fields_center:
  "map_of (node_fields rnd dv n) (ustr ''center'') =
     (if has_center n \<noteq> 0
      then Some (JList [JFloat (rnd (dv (sum_lng n) (has_center n))),
                        JFloat (rnd (dv (sum_lat n) (has_center n)))])
      else None)"
  by (simp add: node_fields_def ustr_def split: option.splits)

lemma map_of_node_fields_bbox:
  "map_of (node_fields rnd dv n) (ustr ''bbox'') =
     (case bbox n of
        None \<Rightarrow> None
      | Some (b0, b1, b2, b3) \<Rightarrow>
          Some (JList [JFloat (rnd b0), JFloat (rnd b1), JFloat (rnd b2), JFloat (rnd b3)]))"
  by (simp add: node_fields_def ustr_def split: option.splits)

lemma jfield_serialize_center:
  "jfield (ustr ''center'') (serialize rnd dv n lev) = map_of (node_fields rnd dv n) (ustr ''center'')"
  by (cases lev) (simp_all add: jfield_def map_add_def map_of_node_fields_center, simp_all add: ustr_def)

lemma jfield_serialize_bbox:
  "jfield (ustr ''bbox'') (serialize rnd dv n lev) = map_of (node_fields rnd dv n) (ustr ''bbox'')"
  by (cases lev) (simp_all add: jfield_def map_add_def map_of_node_fields_bbox, simp_all add: ustr_def split: option.splits)

lemma has_center_node_at:
  assumes "node_at (fold_records recs) pth = Some n"
  shows "has_center n = int (length (filter has_coords (filter (on_path pth) recs)))"
proof -
  have "has_center n = has_center (bare n)" by simp
  also have "\<dots> = has_center (foldl update_with (new_node (path_name pth)) (filter (on_path pth) recs))"
    using node_at_bare(1) [OF assms] by simp
  finally show ?thesis
    by (simp add: has_center_foldl_update_with new_node_def)
qed

lemma bbox_node_at:
  assumes "node_at (fold_records recs) pth = Some n"
  shows "bbox n = None \<longleftrightarrow> (\<forall>r \<in> set (filter (on_path pth) recs). \<not> has_coords r)"
proof -
  have "bbox n = bbox (bare n)" by simp
  also have "\<dots> = bbox (foldl update_with (new_node (path_name pth)) (filter (on_path pth) recs))"
    using node_at_bare(1) [OF assms] by simp
  finally show ?thesis
    by (simp only: bbox_foldl_update_with) (simp add: new_node_def)
qed

lemma center_and_bbox_fields:
  assumes "node_at (fold_records recs) pth = Some n"
  shows
  "jfield (ustr ''center'') (serialize rnd dv n (path_level pth)) =
     (if 0 < has_center n
      then Some (JList [JFloat (rnd (dv (sum_lng n) (has_center n))),
                        JFloat (rnd (dv (sum_lat n) (has_center n)))])
      else None)
   \<and> jfield (ustr ''bbox'') (serialize rnd dv n (path_level pth)) =
     (case bbox n of
        None \<Rightarrow> None
      | Some (b0, b1, b2, b3) \<Rightarrow>
          Some (JList [JFloat (rnd b0), JFloat (rnd b1), JFloat (rnd b2), JFloat (rnd b3)]))
   \<and> (bbox n \<noteq> None) = (\<exists>r \<in> set recs. on_path pth r \<and> has_coords r)
   \<and> (0 < has_center n) = (\<exists>r \<in> set recs. on_path pth r \<and> has_coords r)"
proof -
  have hc: "has_center n = int (length (filter has_coords (filter (on_path pth) recs)))"
    using assms by (rule has_center_node_at)
  have pos: "(0 < has_center n) = (\<exists>r \<in> set recs. on_path pth r \<and> has_coords r)"
    unfolding hc by (auto simp: filter_empty_conv)
  have nz: "(has_center n \<noteq> 0) = (0 < has_center n)"
    unfolding hc by simp
  have bb: "(bbox n \<noteq> None) = (\<exists>r \<in> set recs. on_path pth r \<and> has_coords r)"
    using bbox_node_at [OF assms] by auto
  show ?thesis
    using pos bb
    by (simp only: jfield_serialize_center jfield_serialize_bbox map_of_node_fields_center
          map_of_node_fields_bbox nz)
qed

lemma bit_length_le: "n < 2 ^ m \<Longrightarrow> bit_length n \<le> m"
proof (induction m arbitrary: n)
  case 0
  then show ?case by (simp add: bit_length.simps)
next
  case (Suc m)
  then have "n div 2 < 2 ^ m" by simp
  then have "bit_length (n div 2) \<le> m" by (rule Suc.IH)
  then show ?case by (subst bit_length.simps) simp
qed

lemma bit_length_pos: "0 < n \<Longrightarrow> 0 < bit_length n"
  by (subst bit_length.simps) simp

lemma rne_of_int: "rne (of_int m) = m"
  by (simp add: rne_def)

text \<open>A real is at most half a unit away from the integer it is rounded to.\<close>

lemma rne_nearest: "\<bar>q - of_int (rne q)\<bar> \<le> 1 / 2"
proof -
  have "of_int \<lfloor>q\<rfloor> \<le> q" "q < of_int \<lfloor>q\<rfloor> + 1" by linarith+
  then show ?thesis by (auto simp: rne_def Let_def)
qed

lemma rne_tie_even: "\<bar>q - of_int (rne q)\<bar> = 1 / 2 \<Longrightarrow> even (rne q)"
proof -
  have "of_int \<lfloor>q\<rfloor> \<le> q" "q < of_int \<lfloor>q\<rfloor> + 1" by linarith+
  then show "\<bar>q - of_int (rne q)\<bar> = 1 / 2 \<Longrightarrow> even (rne q)"
    by (auto simp: rne_def Let_def split: if_splits)
qed

text \<open>The conversion of a count to a double is exact below \<open>2 ^ 53\<close>.\<close>

lemma round_nearest_of_int:
  assumes "0 < k" and "k < 2 ^ 53"
  shows "round_nearest (of_int k) = of_int k"
proof -
  define b where "b = bit_length (nat k)"
  have "nat k < 2 ^ 53" using assms by (simp add: nat_less_iff)
  then have b53: "b \<le> 53" unfolding b_def by (rule bit_length_le)
  have b1: "0 < b" unfolding b_def using assms by (intro bit_length_pos) simp
  have e: "exponent \<bar>of_int k\<bar> = int b - 1"
    using assms by (simp add: exponent_def b_def)
  define j where "j = 53 - b"
  have "max (int b - 1) (- 1022) - 52 = - int j"
    using b53 b1 by (simp add: j_def)
  then have u: "ulp (of_int k) = 1 / 2 ^ j"
    by (simp add: ulp_def e pow2_def)
  have "of_int k / ulp (of_int k) = (of_int (k * 2 ^ j) :: real)"
    by (simp add: u)
  then have "rne (of_int k / ulp (of_int k)) = k * 2 ^ j"
    by (simp only: rne_of_int)
  then show ?thesis
    using assms by (simp add: round_nearest_def u)
qed

lemma truediv_quotient:
  "0 < k \<Longrightarrow> k < 2 ^ 53 \<Longrightarrow> truediv (Fin x) k = to_float64 (x / of_int k)"
  by (simp add: round_nearest_of_int)

lemma round6_nearest:
  "\<exists>m. \<bar>x * 1000000 - of_int m\<bar> \<le> 1 / 2
       \<and> (\<bar>x * 1000000 - of_int m\<bar> = 1 / 2 \<longrightarrow> even m)
       \<and> round6 (Fin x) = to_float64 (of_int m / 1000000)"
  using rne_nearest [of "x * 1000000"] rne_tie_even [of "x * 1000000"]
  by (intro exI [of _ "rne (x * 1000000)"]) simp

text \<open>
  C10.  For the node at any path of the tree built from any stream of records with doubles,
  serialized at the level of its path with Python's \<open>round(\<cdot>, 6)\<close> and \<open>/\<close>: \<open>center\<close> is
  emitted exactly when \<open>has_center > 0\<close> and is then
  \<open>[round(sum_lng / has_center, 6), round(sum_lat / has_center, 6)]\<close>; \<open>bbox\<close> is emitted
  exactly when the node has one, with its four components rounded; and the node has a bbox,
  as it has \<open>has_center > 0\<close>, exactly when a record that names the node carried both
  coordinates.  Here \<open>v / k\<close> is the double nearest to the quotient of \<open>v\<close> by the count \<open>k\<close>,
  and \<open>round(v, 6)\<close> of a finite \<open>v\<close> is the double nearest to \<open>m / 10 ^ 6\<close> for an integer \<open>m\<close>
  nearest to \<open>v * 10 ^ 6\<close>, the even one at a tie; an infinity and NaN round to themselves.
\<close>

theorem center_and_bbox_emitted:
  fixes recs :: "float64 norm list"
  assumes "node_at (fold_records recs) pth = Some n"
  shows
  "jfield (ustr ''center'') (serialize round6 truediv n (path_level pth)) =
     (if 0 < has_center n
      then Some (JList [JFloat (round6 (truediv (sum_lng n) (has_center n))),
                        JFloat (round6 (truediv (sum_lat n) (has_center n)))])
      else None)
   \<and> jfield (ustr ''bbox'') (serialize round6 truediv n (path_level pth)) =
     (case bbox n of
        None \<Rightarrow> None
      | Some (b0, b1, b2, b3) \<Rightarrow>
          Some (JList [JFloat (round6 b0), JFloat (round6 b1), JFloat (round6 b2),
                       JFloat (round6 b3)]))
   \<and> (bbox n \<noteq> None) = (\<exists>r \<in> set recs. on_path pth r \<and> has_coords r)
   \<and> (0 < has_center n) = (\<exists>r \<in> set recs. on_path pth r \<and> has_coords r)
   \<and> (\<forall>x k. 0 < k \<and> k < 2 ^ 53 \<longrightarrow> truediv (Fin x) k = to_float64 (x / of_int k))
   \<and> (\<forall>x. \<exists>m. \<bar>x * 1000000 - of_int m\<bar> \<le> 1 / 2
              \<and> (\<bar>x * 1000000 - of_int m\<bar> = 1 / 2 \<longrightarrow> even m)
              \<and> round6 (Fin x) = to_float64 (of_int m / 1000000))
   \<and> round6 PInf = PInf \<and> round6 NInf = NInf \<and> round6 NaN = NaN"
  using center_and_bbox_fields [OF assms, of round6 truediv] truediv_quotient round6_nearest
  by (simp del: round6.simps(1) truediv.simps(1))

theorem center_and_bbox_emitted_witness:
  "node_at (fold_records [dock, dock]) (AtPlace (ustr ''Chile'') (ustr ''RM'') (ustr ''Maipu''))
     = Some (Node (ustr ''Maipu'') 2 (Fin 0)
              (Some (Fin 0.0078125, Fin 0.0078125, Fin 0.0078125, Fin 0.0078125))
              (Fin 0.015625) (Fin 0.015625) 2 [] [])
   \<and> serialize round6 truediv
        (Node (ustr ''Maipu'') 2 (Fin 0)
              (Some (Fin 0.0078125, Fin 0.0078125, Fin 0.0078125, Fin 0.0078125))
              (Fin 0.015625) (Fin 0.015625) 2 [] []) Place
     = JObj [(ustr ''name'', JStr (ustr ''Maipu'')), (ustr ''count'', JInt 2),
             (ustr ''area'', JFloat (Fin 0)),
             (ustr ''bbox'', JList [JFloat (to_float64 0.007812), JFloat (to_float64 0.007812),
                                    JFloat (to_float64 0.007812), JFloat (to_float64 0.007812)]),
             (ustr ''center'', JList [JFloat (to_float64 0.007812), JFloat (to_float64 0.007812)])]
   \<and> to_float64 0.007812 \<noteq> Fin 0.0078125 \<and> to_float64 0.007812 \<noteq> Fin 0.015625"
proof -
  have n: "node_at (fold_records [dock, dock])
             (AtPlace (ustr ''Chile'') (ustr ''RM'') (ustr ''Maipu''))
     = Some (Node (ustr ''Maipu'') 2 (Fin 0)
              (Some (Fin 0.0078125, Fin 0.0078125, Fin 0.0078125, Fin 0.0078125))
              (Fin 0.015625) (Fin 0.015625) 2 [] [])"
    by (simp add: fold_eval dock_def f64_eval)
  have s: "serialize round6 truediv
        (Node (ustr ''Maipu'') 2 (Fin 0)
              (Some (Fin 0.0078125, Fin 0.0078125, Fin 0.0078125, Fin 0.0078125))
              (Fin 0.015625) (Fin 0.015625) 2 [] []) Place
     = JObj [(ustr ''name'', JStr (ustr ''Maipu'')), (ustr ''count'', JInt 2),
             (ustr ''area'', JFloat (Fin 0)),
             (ustr ''bbox'', JList [JFloat (to_float64 0.007812), JFloat (to_float64 0.007812),
                                    JFloat (to_float64 0.007812), JFloat (to_float64 0.007812)]),
             (ustr ''center'', JList [JFloat (to_float64 0.007812), JFloat (to_float64 0.007812)])]"
    by (simp add: node_fields_def f64_eval)
  have d: "to_float64 0.007812 \<noteq> Fin 0.0078125 \<and> to_float64 0.007812 \<noteq> Fin 0.015625"
    by (simp add: f64_eval)
  note t = center_and_bbox_emitted [OF n]
  from t n s d show ?thesis by blast
qed

section \<open>The order of the serialized children\<close>

lemma sorted_keys_sorted_items: "sorted (map fst (sorted_items d))"
  by (simp add: sorted_items_def)

lemma set_sorted_items: "set (sorted_items d) = set d"
  by (simp add: sorted_items_def)

lemma length_sorted_items: "length (sorted_items d) = length d"
  by (simp add: sorted_items_def)

lemma distinct_keys_sorted_items:
  "distinct (map fst d) \<Longrightarrow> distinct (map fst (sorted_items d))"
  by (simp add: sorted_items_def distinct_map)

lemma keys_of_serialized: "map fst (map (\<lambda>(nm, x). (nm, f x)) d) = map fst d"
  by (induction d) auto

lemma same_keys_same_items:
  assumes keys: "map fst xs = map fst ys" and sets: "set xs = set ys"
    and dist: "distinct (map fst xs)"
  shows "xs = ys"
proof (rule nth_equalityI)
  show len: "length xs = length ys"
    using keys by (metis length_map)
  fix i assume i: "i < length xs"
  have inj: "inj_on fst (set xs)"
    using dist by (simp add: distinct_map)
  have "fst (xs ! i) = fst (ys ! i)"
    using keys i len by (metis nth_map)
  moreover have "xs ! i \<in> set xs" using i by simp
  moreover have "ys ! i \<in> set xs" using i len sets by simp
  ultimately show "xs ! i = ys ! i"
    using inj by (auto dest: inj_onD)
qed

lemma sorted_items_insertion_order:
  assumes "distinct (map fst d)" and "distinct (map fst d')" and "set d = set d'"
  shows "sorted_items d = sorted_items d'"
proof (rule same_keys_same_items)
  have "set (map fst (sorted_items d)) = set (map fst (sorted_items d'))"
    using assms(3) by (simp add: set_sorted_items)
  then show "map fst (sorted_items d) = map fst (sorted_items d')"
    using assms(1,2)
    by (intro sorted_distinct_set_unique sorted_keys_sorted_items distinct_keys_sorted_items)
  show "set (sorted_items d) = set (sorted_items d')"
    using assms(3) by (simp add: set_sorted_items)
  show "distinct (map fst (sorted_items d))"
    using assms(1) by (rule distinct_keys_sorted_items)
qed

lemma jfield_document_countries:
  "jfield (ustr ''countries'') (document rnd dv cs) =
     Some (JObj (map (\<lambda>(nm, c). (nm, serialize rnd dv c Country)) (sorted_items cs)))"
  by (simp add: jfield_def document_def ustr_def)

lemma map_of_node_fields_children:
  "map_of (node_fields rnd dv n) (ustr ''regions'') = None"
  "map_of (node_fields rnd dv n) (ustr ''places'') = None"
  by (simp_all add: node_fields_def ustr_def split: option.splits)

lemma jfield_serialize_regions:
  "jfield (ustr ''regions'') (serialize rnd dv c Country) =
     Some (JObj (map (\<lambda>(nm, r). (nm, serialize rnd dv r Region)) (sorted_items (regions c))))"
  by (simp add: jfield_def map_add_def map_of_node_fields_children)

lemma jfield_serialize_places:
  "jfield (ustr ''places'') (serialize rnd dv r Region) =
     Some (JObj (map (\<lambda>(nm, p). (nm, serialize rnd dv p Place)) (sorted_items (places r))))"
  by (simp add: jfield_def map_add_def map_of_node_fields_children)

lemma child_keys_document:
  "child_keys (ustr ''countries'') (document rnd dv cs) = map fst (sorted_items cs)"
  by (simp only: child_keys_def jfield_document_countries option.case json.case
        keys_of_serialized)

lemma child_keys_regions:
  "child_keys (ustr ''regions'') (serialize rnd dv c Country) = map fst (sorted_items (regions c))"
  by (simp only: child_keys_def jfield_serialize_regions option.case json.case
        keys_of_serialized)

lemma child_keys_places:
  "child_keys (ustr ''places'') (serialize rnd dv r Region) = map fst (sorted_items (places r))"
  by (simp only: child_keys_def jfield_serialize_places option.case json.case
        keys_of_serialized)

text \<open>
  C8.  At every level the serializer emits the children in ascending order of their names,
  the order of Python strings by code points: the countries of the document, the regions
  of every country node and the places of every region node are the serialized children
  taken in sorted order, so the emitted keys are ascending and are the keys of the dict.
  The emitted order does not depend on the insertion order: two dicts with the same items
  are emitted alike.  The output is a function of the input, so two runs on the same input
  give the same document.
\<close>

theorem children_in_ascending_order:
  "jfield (ustr ''countries'') (document rnd dv cs) =
     Some (JObj (map (\<lambda>(nm, c). (nm, serialize rnd dv c Country)) (sorted_items cs)))
   \<and> jfield (ustr ''regions'') (serialize rnd dv c Country) =
     Some (JObj (map (\<lambda>(nm, r). (nm, serialize rnd dv r Region)) (sorted_items (regions c))))
   \<and> jfield (ustr ''places'') (serialize rnd dv r Region) =
     Some (JObj (map (\<lambda>(nm, p). (nm, serialize rnd dv p Place)) (sorted_items (places r))))
   \<and> sorted (child_keys (ustr ''countries'') (document rnd dv cs))
   \<and> sorted (child_keys (ustr ''regions'') (serialize rnd dv c Country))
   \<and> sorted (child_keys (ustr ''places'') (serialize rnd dv r Region))
   \<and> set (child_keys (ustr ''countries'') (document rnd dv cs)) = fst ` set cs
   \<and> set (child_keys (ustr ''regions'') (serialize rnd dv c Country)) = fst ` set (regions c)
   \<and> set (child_keys (ustr ''places'') (serialize rnd dv r Region)) = fst ` set (places r)
   \<and> (\<forall>d d' :: (pystr \<times> 'f node) list.
         distinct (map fst d) \<and> distinct (map fst d') \<and> set d = set d'
         \<longrightarrow> sorted_items d = sorted_items d')"
  by (simp only: child_keys_document child_keys_regions child_keys_places
        jfield_document_countries jfield_serialize_regions jfield_serialize_places
        sorted_keys_sorted_items set_map set_sorted_items)
     (simp add: sorted_items_insertion_order)

theorem children_in_ascending_order_witness:
  "child_keys (ustr ''countries'')
     (document decimal6 exact_div
        [(ustr ''Peru'', Node (ustr ''Peru'') 0 0 None 0 0 0 [] []),
         (ustr ''Chile'', Node (ustr ''Chile'') 0 0 None 0 0 0 dict_a [])])
     = [ustr ''Chile'', ustr ''Peru'']
   \<and> child_keys (ustr ''regions'')
       (serialize decimal6 exact_div (Node (ustr ''Chile'') 0 0 None 0 0 0 dict_a []) Country)
     = [ustr ''Arica'', ustr ''RM'']
   \<and> sorted_items dict_a = dict_b \<and> sorted_items dict_b = dict_b"
  using children_in_ascending_order
          [of decimal6 exact_div
              "[(ustr ''Peru'', Node (ustr ''Peru'') 0 0 None 0 0 0 [] []),
                (ustr ''Chile'', Node (ustr ''Chile'') 0 0 None 0 0 0 dict_a [])]"
              "Node (ustr ''Chile'') 0 0 None 0 0 0 dict_a []"
              "Node (ustr ''RM'') 0 0 None 0 0 0 [] []"]
  by (simp add: child_keys_def jfield_def document_def sorted_items_def dict_a_def dict_b_def
        new_node_def ustr_def node_fields_def)

section \<open>Tiles that do not decode\<close>

lemma tiles_loop_skips_corrupt:
  assumes "decode t = None"
  shows "tiles_loop tofloat decode cs (before @ t # after) = tiles_loop tofloat decode cs (before @ after)"
proof (induction before arbitrary: cs)
  case Nil
  show ?case using assms by simp
next
  case (Cons raw before)
  show ?case
    by (simp add: Cons.IH split: option.splits sum.splits)
qed

text \<open>
  C9.  A tile whose payload does not decompress or decode is skipped: the tree after the
  loop, and with it the result of \<open>build_filters\<close>, is that of the same archive without
  the tile.  So none of its features reaches a node, the tiles after it are processed, and
  the run ends with an exception only if it does without the tile.
\<close>

theorem corrupt_tile_skipped:
  assumes "decode t = None"
  shows
  "tiles_loop tofloat decode cs (before @ t # after) = tiles_loop tofloat decode cs (before @ after)
   \<and> build_filters tofloat rnd dv decode (before @ t # after)
       = build_filters tofloat rnd dv decode (before @ after)"
  using assms by (simp add: tiles_loop_skips_corrupt build_filters_def)

lemmas normalize_eval = normalize_feature_def name_field_def py_or_def props_get_def coerce_def strip_def
  isspace_def sin_pais_def sin_region_def sin_lugar_def

theorem corrupt_tile_skipped_witness:
  "example_decode 0 = None
   \<and> tiles_loop (float_builtin no_parse) example_decode [] ([1] @ 0 # [2])
     = Inr [(ustr ''Chile'', Node (ustr ''Chile'') 2 170 (Some (-70.7, -33.5, -70.7, -33.5)) (-70.7) (-33.5) 1
              [(ustr ''RM'', Node (ustr ''RM'') 2 170 (Some (-70.7, -33.5, -70.7, -33.5)) (-70.7) (-33.5) 1 []
                 [(ustr ''Maipu'', Node (ustr ''Maipu'') 1 120 (Some (-70.7, -33.5, -70.7, -33.5)) (-70.7) (-33.5) 1 [] []),
                  (ustr ''Santiago'', Node (ustr ''Santiago'') 1 50 None 0 0 0 [] [])])] [])]
   \<and> tiles_loop (float_builtin no_parse) example_decode [] ([1] @ 0 # [2])
     = tiles_loop (float_builtin no_parse) example_decode [] ([1] @ [2])
   \<and> build_filters (float_builtin no_parse) decimal6 exact_div example_decode ([1] @ 0 # [2])
     = build_filters (float_builtin no_parse) decimal6 exact_div example_decode ([1] @ [2])"
proof -
  have h: "example_decode 0 = None" by (simp add: example_decode_def)
  have "tiles_loop (float_builtin no_parse) example_decode [] [1, 2]
     = Inr [(ustr ''Chile'', Node (ustr ''Chile'') 2 170 (Some (-70.7, -33.5, -70.7, -33.5)) (-70.7) (-33.5) 1
              [(ustr ''RM'', Node (ustr ''RM'') 2 170 (Some (-70.7, -33.5, -70.7, -33.5)) (-70.7) (-33.5) 1 []
                 [(ustr ''Maipu'', Node (ustr ''Maipu'') 1 120 (Some (-70.7, -33.5, -70.7, -33.5)) (-70.7) (-33.5) 1 [] []),
                  (ustr ''Santiago'', Node (ustr ''Santiago'') 1 50 None 0 0 0 [] [])])] [])]"
    by (simp add: example_decode_def LAYER_NAME_def maipu_props_def santiago_props_def
          normalize_eval fold_eval)
  then show ?thesis
    using h corrupt_tile_skipped
               [where decode = example_decode and t = 0 and tofloat = "float_builtin no_parse"
                  and cs = "[]" and before = "[1]" and after = "[2]" and rnd = decimal6
                  and dv = exact_div]
    by simp
qed

section \<open>The normalizer\<close>

lemma name_field_textual: "textual v \<Longrightarrow> \<exists>s. name_field v sentinel = Inr s"
  by (cases v) (auto simp: textual_def name_field_def py_or_def)

lemma name_field_not_textual: "\<not> textual v \<Longrightarrow> name_field v sentinel = Inl AttributeError"
  by (cases v) (auto simp: textual_def name_field_def py_or_def)

lemma textual_py_or: "textual a \<Longrightarrow> textual b \<Longrightarrow> textual (py_or a b)"
  by (simp add: py_or_def)

lemma name_field_falsy: "\<not> truthy v \<Longrightarrow> name_field v sentinel = Inr sentinel"
  by (simp add: name_field_def py_or_def strip_def)

lemma coerce_absent_on_failure:
  "tofloat v = Inl TypeError \<or> tofloat v = Inl ValueError \<Longrightarrow> coerce tofloat v = Inr None"
  by (cases v) (auto simp: coerce_def)

lemma coerce_no_raise:
  assumes "\<forall>v e. tofloat v = Inl e \<longrightarrow> e = TypeError \<or> e = ValueError"
  shows "\<exists>x. coerce tofloat v = Inr x"
proof (cases "tofloat v")
  case (Inl e)
  then have "e = TypeError \<or> e = ValueError" using assms by blast
  with Inl show ?thesis by (cases v) (auto simp: coerce_def)
next
  case (Inr f)
  then show ?thesis by (cases v) (auto simp: coerce_def)
qed

text \<open>
  The normalizer returns a record when every name value is a string or falsy and \<open>float\<close>
  raises nothing but \<open>TypeError\<close> and \<open>ValueError\<close>.
\<close>

lemma normalize_returns_on_text_names:
  assumes names: "\<And>k. k \<in> {ustr ''country'', ustr ''region'', ustr ''district'', ustr ''place'',
                           ustr ''label''} \<Longrightarrow> textual (props_get props k)"
    and fl: "\<forall>v e. tofloat v = Inl e \<longrightarrow> e = TypeError \<or> e = ValueError"
  shows "\<exists>r. normalize_feature tofloat props = Inr r"
proof -
  obtain c where c: "name_field (props_get props (ustr ''country'')) sin_pais = Inr c"
    using names name_field_textual by (metis insertI1)
  have "textual (py_or (props_get props (ustr ''region'')) (props_get props (ustr ''district'')))"
    using names by (intro textual_py_or) simp_all
  then obtain rg where rg: "name_field (py_or (props_get props (ustr ''region''))
        (props_get props (ustr ''district''))) sin_region = Inr rg"
    using name_field_textual by blast
  have "textual (py_or (props_get props (ustr ''place'')) (props_get props (ustr ''label'')))"
    using names by (intro textual_py_or) simp_all
  then obtain p where p: "name_field (py_or (props_get props (ustr ''place''))
        (props_get props (ustr ''label''))) sin_lugar = Inr p"
    using name_field_textual by blast
  obtain la where la: "coerce tofloat (py_or (props_get props (ustr ''centroid_lat''))
        (props_get props (ustr ''lat''))) = Inr la"
    using coerce_no_raise [OF fl] by blast
  obtain lo where lo: "coerce tofloat (py_or (props_get props (ustr ''centroid_lng''))
        (props_get props (ustr ''lng''))) = Inr lo"
    using coerce_no_raise [OF fl] by blast
  obtain ar where ar: "coerce tofloat (py_or (props_get props (ustr ''area''))
        (props_get props (ustr ''area_ha''))) = Inr ar"
    using coerce_no_raise [OF fl] by blast
  show ?thesis
    by (simp add: normalize_feature_def c rg p la lo ar)
qed

text \<open>
  C4 does not hold of the code.  A name value that is truthy and not a string, such as the
  integer 5, has no \<open>strip\<close> method: the normalizer raises \<open>AttributeError\<close>, nothing
  catches it, and \<open>build_filters\<close> ends with it.  The numeric fields next to it are
  guarded by \<open>try\<close>; the name fields are not.
\<close>

theorem normalize_raises_on_number_name:
  "normalize_feature tofloat [(ustr ''country'', PInt 5)] = Inl AttributeError
   \<and> features_loop tofloat cs [Some [(ustr ''country'', PInt 5)]] = Inl AttributeError
   \<and> build_filters tofloat rnd dv
        (\<lambda>raw. Some [(LAYER_NAME, [Some [(ustr ''country'', PInt 5)]])]) [raw]
      = Inl AttributeError"
  by (simp add: build_filters_def normalize_feature_def name_field_def py_or_def props_get_def)

theorem normalize_raises_on_number_name_witness:
  "normalize_feature (float_builtin no_parse) [(ustr ''country'', PInt 5)] = Inl AttributeError
   \<and> features_loop (float_builtin no_parse) [] [Some [(ustr ''country'', PInt 5)]]
       = Inl AttributeError"
proof -
  note h = normalize_raises_on_number_name
             [where tofloat = "float_builtin no_parse" and cs = "[]" and rnd = decimal6
                and dv = exact_div and raw = "0::nat"]
  from h show ?thesis by blast
qed

text \<open>
  C5 does not hold of the code.  The candidates are chained with \<open>or\<close>, which passes
  over a value that is present and falsy: with \<open>centroid_lat = 0.0\<close> the later key \<open>lat\<close> is
  consulted and its value 5.0 is taken, and with \<open>centroid_lat = 0.0\<close> alone the latitude is
  recorded as absent although \<open>float(0.0)\<close> does not fail.  Under the key \<open>lat\<close> itself, the
  last candidate, the same 0.0 is kept.
\<close>

theorem zero_candidate_passed_over:
  "normalize_feature (float_builtin parse) [(ustr ''centroid_lat'', PFloat 0), (ustr ''lat'', PFloat 5)]
     = Inr \<lparr>r_country = sin_pais, r_region = sin_region, r_place = sin_lugar,
            r_lat = Some 5, r_lng = None, r_area = None\<rparr>
   \<and> normalize_feature (float_builtin parse) [(ustr ''centroid_lat'', PFloat 0)]
     = Inr \<lparr>r_country = sin_pais, r_region = sin_region, r_place = sin_lugar,
            r_lat = None, r_lng = None, r_area = None\<rparr>
   \<and> normalize_feature (float_builtin parse) [(ustr ''lat'', PFloat 0)]
     = Inr \<lparr>r_country = sin_pais, r_region = sin_region, r_place = sin_lugar,
            r_lat = Some 0, r_lng = None, r_area = None\<rparr>"
  by (simp add: normalize_feature_def name_field_def py_or_def props_get_def coerce_def strip_def ustr_def)

theorem zero_candidate_passed_over_witness:
  "normalize_feature (float_builtin no_parse) [(ustr ''centroid_lat'', PFloat 0), (ustr ''lat'', PFloat 5)]
     = Inr \<lparr>r_country = sin_pais, r_region = sin_region, r_place = sin_lugar,
            r_lat = Some 5, r_lng = None, r_area = None\<rparr>"
  using zero_candidate_passed_over [where parse = no_parse]
  by blast

section \<open>A feature without a region\<close>

lemma count_node_at_aggregate:
  assumes "on_path pth r"
  shows "map_option count (node_at (aggregate cs r) pth)
         = Some ((case node_at cs pth of None \<Rightarrow> 0 | Some n \<Rightarrow> count n) + 1)"
proof -
  have "map_option count (node_at (aggregate cs r) pth)
        = map_option count (map_option bare (node_at (aggregate cs r) pth))"
    by (simp add: option.map_comp comp_def)
  then show ?thesis
    using assms
    by (simp add: node_at_aggregate update_with_def split: option.splits)
qed

text \<open>
  C3, as amended.  For a feature that supplies no region (neither \<open>region\<close> nor \<open>district\<close>
  has a truthy value), the normalized record names the region \<open>sin_region\<close>, the fallback
  label; folding it increments the count of its country node, and the region node of that
  name in the country's child mapping is found or created and its count incremented too.
\<close>

theorem missing_region_filed_under_sentinel:
  assumes "normalize_feature tofloat props = Inr r"
    and "\<not> truthy (props_get props (ustr ''region''))"
    and "\<not> truthy (props_get props (ustr ''district''))"
  shows
  "r_region r = sin_region
   \<and> map_option count (node_at (aggregate cs r) (AtCountry (r_country r)))
       = Some ((case node_at cs (AtCountry (r_country r)) of None \<Rightarrow> 0 | Some n \<Rightarrow> count n) + 1)
   \<and> map_option count (node_at (aggregate cs r) (AtRegion (r_country r) sin_region))
       = Some ((case node_at cs (AtRegion (r_country r) sin_region) of
                  None \<Rightarrow> 0 | Some n \<Rightarrow> count n) + 1)"
proof -
  have "name_field (py_or (props_get props (ustr ''region'')) (props_get props (ustr ''district'')))
          sin_region = Inr sin_region"
    using assms(2,3) by (simp add: name_field_falsy py_or_def)
  then have rg: "r_region r = sin_region"
    using assms(1) by (auto simp: normalize_feature_def split: sum.splits)
  have c: "map_option count (node_at (aggregate cs r) (AtCountry (r_country r)))
       = Some ((case node_at cs (AtCountry (r_country r)) of None \<Rightarrow> 0 | Some n \<Rightarrow> count n) + 1)"
    by (rule count_node_at_aggregate) simp
  have "map_option count (node_at (aggregate cs r) (AtRegion (r_country r) (r_region r)))
       = Some ((case node_at cs (AtRegion (r_country r) (r_region r)) of
                  None \<Rightarrow> 0 | Some n \<Rightarrow> count n) + 1)"
    by (rule count_node_at_aggregate) simp
  with rg c show ?thesis by (simp only:)
qed

theorem missing_region_filed_under_sentinel_witness:
  "normalize_feature (float_builtin no_parse) [(ustr ''country'', PStr (ustr ''Chile''))]
     = Inr \<lparr>r_country = ustr ''Chile'', r_region = sin_region, r_place = sin_lugar,
            r_lat = None, r_lng = None, r_area = None\<rparr>
   \<and> map_option count
       (node_at (aggregate []
          \<lparr>r_country = ustr ''Chile'', r_region = sin_region, r_place = sin_lugar,
            r_lat = None, r_lng = None, r_area = (None::real option)\<rparr>)
          (AtRegion (ustr ''Chile'') sin_region)) = Some 1"
proof -
  have n: "normalize_feature (float_builtin no_parse) [(ustr ''country'', PStr (ustr ''Chile''))]
     = Inr \<lparr>r_country = ustr ''Chile'', r_region = sin_region, r_place = sin_lugar,
            r_lat = None, r_lng = None, r_area = None\<rparr>"
    by (simp add: normalize_feature_def name_field_def py_or_def props_get_def coerce_def strip_def
          isspace_def ustr_def)
  have a: "\<not> truthy (props_get [(ustr ''country'', PStr (ustr ''Chile''))] (ustr ''region'') :: real pyval)"
    by (simp add: props_get_def ustr_def)
  have b: "\<not> truthy (props_get [(ustr ''country'', PStr (ustr ''Chile''))] (ustr ''district'') :: real pyval)"
    by (simp add: props_get_def ustr_def)
  show ?thesis
    using n missing_region_filed_under_sentinel [OF n a b, of "[]"] by simp
qed

text \<open>
  C3 as stated fails: for the feature \<open>{"country": "Chile"}\<close> folded into the empty tree,
  the child mapping of the country gains the entry of the fallback region.
\<close>

theorem region_node_created_counterexample:
  "features_loop (float_builtin no_parse) [] [Some [(ustr ''country'', PStr (ustr ''Chile''))]]
     = Inr [(ustr ''Chile'',
             Node (ustr ''Chile'') 1 0 None 0 0 0
               [(sin_region,
                 Node sin_region 1 0 None 0 0 0 []
                   [(sin_lugar, Node sin_lugar 1 0 None 0 0 0 [] [])])]
               [])]"
  by (simp add: normalize_feature_def name_field_def py_or_def props_get_def coerce_def strip_def
        isspace_def fold_eval)

end
